theory Spec2Isabelle
  imports Main "HOL-Library.Multiset"
begin

section \<open>The binary min-heap of binaryheap.py\<close>

text \<open>
  The class \<open>BinaryMinHeap\<close> keeps one attribute, the Python list \<open>items\<close>. Its
  methods mutate that list and raise \<open>ValueError\<close>, \<open>IndexError\<close> or (through
  \<open>assert\<close>) \<open>AssertionError\<close>. A method is modelled as a function from the heap
  before the call to the outcome of the call (the exception raised, or the value
  returned) paired with the heap after the call, so that what a raising call leaves
  behind is part of the model. Indices are Python integers, hence \<open>int\<close>.
\<close>

subsection \<open>Exceptions, the object, and sequencing of statements\<close>

datatype error = ValueError | IndexError | AssertionError

record 'a BinaryMinHeap =
  items :: "'a list"

type_synonym ('a, 'r) heap_op = "'a BinaryMinHeap \<Rightarrow> (error + 'r) \<times> 'a BinaryMinHeap"

definition returns :: "'r \<Rightarrow> ('a, 'r) heap_op" where
  "returns v h = (Inr v, h)"

definition raises :: "error \<Rightarrow> ('a, 'r) heap_op" where
  "raises e h = (Inl e, h)"

text \<open>\<open>and_then m f\<close> runs \<open>m\<close>; an exception of \<open>m\<close> ends the call with the heap as
  \<open>m\<close> left it, a value is handed to the statements \<open>f\<close> that follow.\<close>

definition and_then :: "('a, 'r) heap_op \<Rightarrow> ('r \<Rightarrow> ('a, 's) heap_op) \<Rightarrow> ('a, 's) heap_op" where
  "and_then m f h = (case m h of (Inl e, h') \<Rightarrow> (Inl e, h') | (Inr v, h') \<Rightarrow> f v h')"

subsection \<open>Python list operations used on \<open>self.items\<close>\<close>

text \<open>\<open>xs[i]\<close>: a negative index counts from the end, an index outside
  \<open>-len(xs) .. len(xs)-1\<close> raises \<open>IndexError\<close>.\<close>

definition py_getitem :: "'a list \<Rightarrow> int \<Rightarrow> error + 'a" where
  "py_getitem xs i =
     (let n = int (length xs); j = (if i < 0 then i + n else i)
      in if 0 \<le> j \<and> j < n then Inr (xs ! nat j) else Inl IndexError)"

definition py_setitem :: "'a list \<Rightarrow> int \<Rightarrow> 'a \<Rightarrow> error + 'a list" where
  "py_setitem xs i v =
     (let n = int (length xs); j = (if i < 0 then i + n else i)
      in if 0 \<le> j \<and> j < n then Inr (xs[nat j := v]) else Inl IndexError)"

text \<open>\<open>xs.pop()\<close>: removes and returns the last element; raises \<open>IndexError\<close> on the
  empty list.\<close>

definition py_pop :: "'a list \<Rightarrow> error + ('a \<times> 'a list)" where
  "py_pop xs = (if xs = [] then Inl IndexError else Inr (last xs, butlast xs))"

definition items_get :: "int \<Rightarrow> ('a, 'a) heap_op" where
  "items_get i h = (py_getitem (items h) i, h)"

definition items_set :: "int \<Rightarrow> 'a \<Rightarrow> ('a, unit) heap_op" where
  "items_set i v h =
     (case py_setitem (items h) i v of
        Inl e \<Rightarrow> (Inl e, h)
      | Inr xs \<Rightarrow> (Inr (), h\<lparr>items := xs\<rparr>))"

definition items_pop :: "('a, 'a) heap_op" where
  "items_pop h =
     (case py_pop (items h) of
        Inl e \<Rightarrow> (Inl e, h)
      | Inr (v, xs) \<Rightarrow> (Inr v, h\<lparr>items := xs\<rparr>))"

definition items_append :: "'a \<Rightarrow> ('a, unit) heap_op" where
  "items_append v h = (Inr (), h\<lparr>items := items h @ [v]\<rparr>)"

definition py_assert :: "bool \<Rightarrow> ('a, unit) heap_op" where
  "py_assert b = (if b then returns () else raises AssertionError)"

subsection \<open>Observers and index arithmetic\<close>

definition is_empty_heap :: "'a BinaryMinHeap \<Rightarrow> bool" where
  "is_empty_heap h = (if length (items h) = 0 then True else False)"

definition size_heap :: "'a BinaryMinHeap \<Rightarrow> int" where
  "size_heap h = int (length (items h))"

definition last_index :: "'a BinaryMinHeap \<Rightarrow> int" where
  "last_index h = int (length (items h)) - 1"

text \<open>The shifts of the source on Python integers: \<open>>> 1\<close> is \<open>drop_bit 1\<close> (floor
  division by two), \<open><< 1\<close> is \<open>push_bit 1\<close>.\<close>

definition parent_index :: "int \<Rightarrow> error + int" where
  "parent_index index =
     (if index \<le> 0 then Inl IndexError else Inr (drop_bit 1 (index - 1)))"

definition left_child_index :: "int \<Rightarrow> int" where
  "left_child_index index = push_bit 1 index + 1"

definition right_child_index :: "int \<Rightarrow> int" where
  "right_child_index index = push_bit 1 index + 2"

subsection \<open>The sift routines, as the source has them\<close>

text \<open>\<open>_bubble_up\<close> returns at once for index 0, checks the bounds, then reads the item,
  resolves the parent index and reads the parent item. The source ends there: the swap
  and the recursive call are left as TODO comments.\<close>

definition bubble_up :: "int \<Rightarrow> ('a, unit) heap_op" where
  "bubble_up index h =
     (if index = 0 then returns () h
      else if \<not> (0 \<le> index \<and> index \<le> last_index h) then raises IndexError h
      else and_then (items_get index) (\<lambda>item.
           and_then (\<lambda>h'. (parent_index index, h')) (\<lambda>parent.
           and_then (items_get parent) (\<lambda>parent_item.
           returns ()))) h)"

text \<open>\<open>_bubble_down\<close> checks the bounds, computes both child indices, returns for a
  leaf, then reads the item, sets \<open>child_index = 0\<close> and reads the item there. The
  choice of the child, the swap and the recursive call are left as TODO comments.\<close>

definition bubble_down :: "int \<Rightarrow> ('a, unit) heap_op" where
  "bubble_down index h =
     (if \<not> (0 \<le> index \<and> index \<le> last_index h) then raises IndexError h
      else let left_index = left_child_index index;
               right_index = right_child_index index
           in if left_index > last_index h then returns () h
              else and_then (items_get index) (\<lambda>item.
                   let child_index = 0
                   in and_then (items_get child_index) (\<lambda>child_item.
                      returns ())) h)"

subsection \<open>The public methods\<close>

definition insert_heap :: "'a \<Rightarrow> ('a, unit) heap_op" where
  "insert_heap item =
     and_then (items_append item) (\<lambda>_ h.
       if size_heap h > 1 then bubble_up (last_index h) h else returns () h)"

definition get_min :: "('a, 'a) heap_op" where
  "get_min h =
     (if size_heap h = 0 then raises ValueError h
      else and_then (py_assert (size_heap h > 0)) (\<lambda>_. items_get 0) h)"

definition delete_min :: "('a, 'a) heap_op" where
  "delete_min h =
     (if size_heap h = 0 then raises ValueError h
      else if size_heap h = 1 then items_pop h
      else and_then (py_assert (size_heap h > 1)) (\<lambda>_.
           and_then (items_get 0) (\<lambda>min_item.
           and_then items_pop (\<lambda>last_item.
           and_then (items_set 0 last_item) (\<lambda>_.
           and_then (\<lambda>h'. if size_heap h' > 1 then bubble_down 0 h' else returns () h') (\<lambda>_.
           returns min_item))))) h)"

definition replace_min :: "'a \<Rightarrow> ('a, 'a) heap_op" where
  "replace_min item h =
     (if size_heap h = 0 then raises ValueError h
      else and_then (py_assert (size_heap h > 0)) (\<lambda>_.
           and_then (items_get 0) (\<lambda>min_item.
           and_then (items_set 0 item) (\<lambda>_.
           and_then (\<lambda>h'. if size_heap h' > 1 then bubble_down 0 h' else returns () h') (\<lambda>_.
           returns min_item)))) h)"

text \<open>The loop \<open>for item in items: self.insert(item)\<close> of the constructor.\<close>

primrec insert_all :: "'a list \<Rightarrow> ('a, unit) heap_op" where
  "insert_all [] = returns ()"
| "insert_all (item # rest) = and_then (insert_heap item) (\<lambda>_. insert_all rest)"

text \<open>\<open>__init__(self, items=None)\<close>: an argument that is \<open>None\<close> or an empty list is
  falsy and skips the loop.\<close>

definition init :: "'a list option \<Rightarrow> ('a, unit) heap_op" where
  "init arg h0 =
     (let h = h0\<lparr>items := []\<rparr>
      in case arg of
           None \<Rightarrow> returns () h
         | Some xs \<Rightarrow> if xs \<noteq> [] then insert_all xs h else returns () h)"

text \<open>\<open>BinaryMinHeap()\<close>, the heap the test function starts from.\<close>

definition empty_heap :: "'a BinaryMinHeap" where
  "empty_heap = snd (init None \<lparr>items = []\<rparr>)"

subsection \<open>The two loops of \<open>test_binary_min_heap\<close>\<close>

text \<open>First loop: insert each item and read \<open>get_min()\<close> after it; the values read are
  collected in order.\<close>

primrec insert_and_get_min :: "'a list \<Rightarrow> ('a, 'a list) heap_op" where
  "insert_and_get_min [] = returns []"
| "insert_and_get_min (item # rest) =
     and_then (insert_heap item) (\<lambda>_.
     and_then get_min (\<lambda>heap_min.
     and_then (insert_and_get_min rest) (\<lambda>mins.
     returns (heap_min # mins))))"

text \<open>Second loop: call \<open>delete_min()\<close> a given number of times; the values returned are
  collected in order.\<close>

primrec delete_min_times :: "nat \<Rightarrow> ('a, 'a list) heap_op" where
  "delete_min_times 0 = returns []"
| "delete_min_times (Suc n) =
     and_then delete_min (\<lambda>heap_min.
     and_then (delete_min_times n) (\<lambda>mins.
     returns (heap_min # mins)))"

subsection \<open>The heap property\<close>

text \<open>Every populated position \<open>i > 0\<close> holds an item no smaller than the item at
  \<open>(i - 1) div 2\<close>.\<close>

definition heap_property :: "('a::linorder) list \<Rightarrow> bool" where
  "heap_property xs = list_all (\<lambda>i. xs ! ((i - 1) div 2) \<le> xs ! i) [1..<length xs]"

section \<open>What the methods compute\<close>

lemmas method_defs = returns_def raises_def and_then_def items_get_def items_set_def
  items_pop_def items_append_def py_assert_def py_getitem_def py_setitem_def py_pop_def
  size_heap_def last_index_def parent_index_def left_child_index_def right_child_index_def

lemma init_None: "init None h = (Inr (), \<lparr>items = []\<rparr>)"
  by (simp add: init_def returns_def)

lemma empty_heap_items: "empty_heap = \<lparr>items = []\<rparr>"
  by (simp add: empty_heap_def init_None)

text \<open>The executable heap property is the quantified one of the specification.\<close>

lemma heap_property_iff:
  "heap_property xs \<longleftrightarrow> (\<forall>i. 0 < i \<and> i < length xs \<longrightarrow> xs ! ((i - 1) div 2) \<le> xs ! i)"
  by (auto simp add: heap_property_def list_all_iff)

text \<open>With an index in range, every read of a sift routine succeeds, and since neither
  routine writes, the call returns with the heap as it was.\<close>

lemma bubble_up_in_range:
  "0 \<le> index \<Longrightarrow> index \<le> last_index h \<Longrightarrow> bubble_up index h = (Inr (), h)"
  by (auto simp add: bubble_up_def method_defs Let_def drop_bit_eq_div)

lemma bubble_down_in_range:
  "0 \<le> index \<Longrightarrow> index \<le> last_index h \<Longrightarrow> bubble_down index h = (Inr (), h)"
  by (auto simp add: bubble_down_def method_defs Let_def push_bit_eq_mult)

lemma insert_heap_eq: "insert_heap x h = (Inr (), h\<lparr>items := items h @ [x]\<rparr>)"
  by (simp add: insert_heap_def and_then_def items_append_def returns_def
      bubble_up_in_range last_index_def size_heap_def)

lemma insert_all_eq: "insert_all xs h = (Inr (), h\<lparr>items := items h @ xs\<rparr>)"
  by (induction xs arbitrary: h) (simp_all add: returns_def and_then_def insert_heap_eq)

lemma get_min_eq:
  "get_min h = (case items h of [] \<Rightarrow> (Inl ValueError, h) | x # _ \<Rightarrow> (Inr x, h))"
  by (simp add: get_min_def method_defs split: list.splits)

lemma delete_min_eq:
  "delete_min h =
     (case items h of
        [] \<Rightarrow> (Inl ValueError, h)
      | [x] \<Rightarrow> (Inr x, h\<lparr>items := []\<rparr>)
      | x # y # ys \<Rightarrow> (Inr x, h\<lparr>items := last (y # ys) # butlast (y # ys)\<rparr>))"
  by (auto simp add: delete_min_def method_defs bubble_down_in_range Let_def split: list.splits)

lemma replace_min_eq:
  "replace_min v h =
     (case items h of
        [] \<Rightarrow> (Inl ValueError, h)
      | x # xs \<Rightarrow> (Inr x, h\<lparr>items := v # xs\<rparr>))"
  by (auto simp add: replace_min_def method_defs bubble_down_in_range Let_def split: list.splits)

lemma mset_last_butlast: "xs \<noteq> [] \<Longrightarrow> mset (last xs # butlast xs) = mset xs"
  by (induction xs) (auto simp add: add_mset_commute)

text \<open>Calling \<open>delete_min\<close> as many times as the heap has items empties it, and the items
  returned are, as a multiset, the items the heap held. Nothing is said about their
  order.\<close>

lemma delete_min_times_drains:
  "\<exists>ys. delete_min_times (length xs) \<lparr>items = xs\<rparr> = (Inr ys, \<lparr>items = []\<rparr>) \<and> mset ys = mset xs"
proof (induction "length xs" arbitrary: xs)
  case 0
  then show ?case by (simp add: returns_def)
next
  case (Suc n)
  show ?case
  proof (cases xs)
    case Nil
    with Suc show ?thesis by simp
  next
    case (Cons x rest)
    show ?thesis
    proof (cases rest)
      case Nil
      with Cons Suc.hyps show ?thesis
        by (simp add: delete_min_eq and_then_def returns_def)
    next
      case (Cons y ys)
      let ?zs = "last (y # ys) # butlast (y # ys)"
      have len: "n = length ?zs" using Suc.hyps \<open>xs = x # rest\<close> Cons by simp
      from Suc.hyps(1)[OF len] obtain ws where
        ws: "delete_min_times (length ?zs) \<lparr>items = ?zs\<rparr> = (Inr ws, \<lparr>items = []\<rparr>)"
          "mset ws = mset ?zs"
        by blast
      have m: "mset ?zs = mset (y # ys)"
        by (rule mset_last_butlast) simp
      have "delete_min_times (length xs) \<lparr>items = xs\<rparr> = (Inr (x # ws), \<lparr>items = []\<rparr>)"
        using ws(1) len \<open>xs = x # rest\<close> Cons Suc.hyps(2)
        by (simp add: delete_min_eq and_then_def returns_def del: butlast.simps last.simps)
      then show ?thesis using ws(2) m \<open>xs = x # rest\<close> Cons by simp
    qed
  qed
qed

lemma heap_property_2_1: "\<not> heap_property [2, 1::int]"
  by (simp add: heap_property_def upt_conv_Cons)

lemma heap_property_1_2: "heap_property [1, 2::int]"
  by (simp add: heap_property_def upt_conv_Cons)

section \<open>The claims\<close>

text \<open>
  C1. Claim: every heap reached from the empty heap by \<open>insert\<close>, \<open>delete_min\<close> and
  \<open>replace_min\<close> calls has the heap property, \<open>items[(i-1) div 2] \<le> items[i]\<close> for
  every populated \<open>i > 0\<close>. On the code: \<open>insert(2)\<close> then \<open>insert(1)\<close> on the empty
  heap leaves \<open>items = [2, 1]\<close>, where position 1 holds less than its parent.
\<close>

theorem heap_property_fails_after_inserts:
  "items (snd (insert_heap 1 (snd (insert_heap (2::int) empty_heap)))) = [2, 1] \<and>
   \<not> heap_property (items (snd (insert_heap 1 (snd (insert_heap (2::int) empty_heap)))))"
  by (simp add: insert_heap_eq empty_heap_items heap_property_2_1)

text \<open>
  C2. Claim: on a non-empty reachable heap \<open>get_min()\<close> returns the minimum of the items
  held. On the code: after \<open>insert(2)\<close>, \<open>insert(1)\<close> it returns 2 (and leaves the heap
  as it was), while the minimum held is 1.
\<close>

theorem get_min_not_minimum_after_inserts:
  "get_min (snd (insert_heap 1 (snd (insert_heap (2::int) empty_heap)))) =
     (Inr 2, \<lparr>items = [2, 1]\<rparr>) \<and>
   Min (set (items (snd (insert_heap 1 (snd (insert_heap (2::int) empty_heap)))))) = 1"
  by (simp add: insert_heap_eq empty_heap_items get_min_eq)

text \<open>
  C3. Claim: after inserting any items into the empty heap, calling \<open>delete_min\<close> until
  the heap is empty yields them in non-decreasing order. On the code: after inserting
  2 and 1, two calls empty the heap and yield 2, then 1.
\<close>

theorem delete_min_order_not_sorted:
  "insert_all [2, 1::int] empty_heap = (Inr (), \<lparr>items = [2, 1]\<rparr>) \<and>
   delete_min_times 2 \<lparr>items = [2, 1::int]\<rparr> = (Inr [2, 1], \<lparr>items = []\<rparr>) \<and>
   \<not> sorted [2, 1::int]"
  by (simp add: insert_heap_eq empty_heap_items delete_min_eq and_then_def returns_def
      numeral_2_eq_2)

text \<open>
  C4. Claim: inserting 9, 25, 86, 3, 29, 5, 55 and reading \<open>get_min()\<close> after each
  insertion yields 9, 9, 9, 3, 3, 3, 3, and seven \<open>delete_min()\<close> calls then yield
  3, 5, 9, 25, 29, 55, 86 and leave the heap empty. On the code: the minima read are
  seven times 9, the deletions yield 9, 55, 5, 29, 3, 86, 25; the heap is empty
  afterwards.
\<close>

theorem test_scenario_observed:
  "insert_and_get_min [9, 25, 86, 3, 29, 5, 55::int] empty_heap =
     (Inr [9, 9, 9, 9, 9, 9, 9], \<lparr>items = [9, 25, 86, 3, 29, 5, 55]\<rparr>) \<and>
   delete_min_times 7 \<lparr>items = [9, 25, 86, 3, 29, 5, 55::int]\<rparr> =
     (Inr [9, 55, 5, 29, 3, 86, 25], \<lparr>items = []\<rparr>) \<and>
   size_heap \<lparr>items = []::int list\<rparr> = 0 \<and> is_empty_heap \<lparr>items = []::int list\<rparr>"
  by (simp add: insert_heap_eq get_min_eq delete_min_eq empty_heap_items and_then_def
      returns_def eval_nat_numeral size_heap_def is_empty_heap_def)

text \<open>
  C5. Claim: on a non-empty heap \<open>replace_min(x)\<close> returns what \<open>delete_min()\<close> would,
  keeps the number of items, and leaves a heap whose \<open>get_min()\<close> is at most the minimum
  of the other items together with \<open>x\<close>. On the code: the heap \<open>[1, 2]\<close> (built by
  \<open>insert(1)\<close>, \<open>insert(2)\<close>, and a heap) gives 1 for both calls, and \<open>replace_min(5)\<close>
  leaves \<open>[5, 2]\<close>, whose \<open>get_min()\<close> is 5 while the minimum of 2 and 5 is 2.
\<close>

theorem replace_min_root_not_minimum:
  "insert_all [1, 2::int] empty_heap = (Inr (), \<lparr>items = [1, 2]\<rparr>) \<and>
   heap_property [1, 2::int] \<and>
   delete_min \<lparr>items = [1, 2::int]\<rparr> = (Inr 1, \<lparr>items = [2]\<rparr>) \<and>
   replace_min 5 \<lparr>items = [1, 2::int]\<rparr> = (Inr 1, \<lparr>items = [5, 2]\<rparr>) \<and>
   get_min \<lparr>items = [5, 2::int]\<rparr> = (Inr 5, \<lparr>items = [5, 2]\<rparr>) \<and>
   Min (set [2, 5::int]) = 2 \<and> \<not> (5::int) \<le> Min (set [2, 5::int])"
  by (simp add: insert_heap_eq and_then_def returns_def empty_heap_items delete_min_eq
      replace_min_eq get_min_eq heap_property_1_2)

text \<open>
  C6. In every heap state, \<open>insert\<close> returns normally and \<open>size()\<close> is one more after
  it; after a \<open>delete_min\<close> that returns a value \<open>size()\<close> is one less; after a
  \<open>replace_min\<close> that returns a value \<open>size()\<close> is what it was.
\<close>

theorem size_accounting:
  "fst (insert_heap x h) = Inr () \<and>
   size_heap (snd (insert_heap x h)) = size_heap h + 1 \<and>
   (\<forall>v h'. delete_min h = (Inr v, h') \<longrightarrow> size_heap h' = size_heap h - 1) \<and>
   (\<forall>v h'. replace_min x h = (Inr v, h') \<longrightarrow> size_heap h' = size_heap h)"
  by (auto simp add: insert_heap_eq delete_min_eq replace_min_eq size_heap_def
      split: list.splits)

text \<open>The heap \<open>[3, 1, 2]\<close>: both calls return 3, and the sizes are 2, 3 and 4.\<close>

theorem size_accounting_witness:
  "delete_min \<lparr>items = [3, 1, 2::int]\<rparr> = (Inr 3, \<lparr>items = [2, 1]\<rparr>) \<and>
   size_heap \<lparr>items = [2, 1::int]\<rparr> = size_heap \<lparr>items = [3, 1, 2::int]\<rparr> - 1 \<and>
   replace_min 5 \<lparr>items = [3, 1, 2::int]\<rparr> = (Inr 3, \<lparr>items = [5, 1, 2]\<rparr>) \<and>
   size_heap \<lparr>items = [5, 1, 2::int]\<rparr> = size_heap \<lparr>items = [3, 1, 2::int]\<rparr> \<and>
   size_heap (snd (insert_heap 5 \<lparr>items = [3, 1, 2::int]\<rparr>)) =
     size_heap \<lparr>items = [3, 1, 2::int]\<rparr> + 1"
proof -
  have d: "delete_min \<lparr>items = [3, 1, 2::int]\<rparr> = (Inr 3, \<lparr>items = [2, 1]\<rparr>)"
    by (simp add: delete_min_eq)
  have r: "replace_min 5 \<lparr>items = [3, 1, 2::int]\<rparr> = (Inr 3, \<lparr>items = [5, 1, 2]\<rparr>)"
    by (simp add: replace_min_eq)
  from size_accounting [of 5 "\<lparr>items = [3, 1, 2::int]\<rparr>"] d r show ?thesis by blast
qed

text \<open>
  C7. Each of \<open>get_min\<close>, \<open>delete_min\<close> and \<open>replace_min\<close> raises \<open>ValueError\<close> (the
  specification's EmptyContainer) exactly when \<open>size()\<close> is 0; it raises no other
  exception, and whenever it raises, the heap is as it was before the call.
\<close>

theorem empty_heap_errors:
  "(fst (get_min h) = Inl ValueError \<longleftrightarrow> size_heap h = 0) \<and>
   (fst (delete_min h) = Inl ValueError \<longleftrightarrow> size_heap h = 0) \<and>
   (fst (replace_min x h) = Inl ValueError \<longleftrightarrow> size_heap h = 0) \<and>
   (\<forall>e. fst (get_min h) = Inl e \<longrightarrow> e = ValueError \<and> snd (get_min h) = h) \<and>
   (\<forall>e. fst (delete_min h) = Inl e \<longrightarrow> e = ValueError \<and> snd (delete_min h) = h) \<and>
   (\<forall>e. fst (replace_min x h) = Inl e \<longrightarrow> e = ValueError \<and> snd (replace_min x h) = h)"
  by (auto simp add: get_min_eq delete_min_eq replace_min_eq size_heap_def split: list.splits)

text \<open>The empty heap: each of the three calls raises, and leaves the heap empty.\<close>

theorem empty_heap_errors_witness:
  "fst (get_min \<lparr>items = []::int list\<rparr>) = Inl ValueError \<and>
   snd (get_min \<lparr>items = []::int list\<rparr>) = \<lparr>items = []\<rparr> \<and>
   fst (delete_min \<lparr>items = []::int list\<rparr>) = Inl ValueError \<and>
   snd (delete_min \<lparr>items = []::int list\<rparr>) = \<lparr>items = []\<rparr> \<and>
   fst (replace_min 7 \<lparr>items = []::int list\<rparr>) = Inl ValueError \<and>
   snd (replace_min 7 \<lparr>items = []::int list\<rparr>) = \<lparr>items = []\<rparr>"
proof -
  have g: "fst (get_min \<lparr>items = []::int list\<rparr>) = Inl ValueError"
    by (simp add: get_min_def raises_def size_heap_def)
  have d: "fst (delete_min \<lparr>items = []::int list\<rparr>) = Inl ValueError"
    by (simp add: delete_min_def raises_def size_heap_def)
  have r: "fst (replace_min 7 \<lparr>items = []::int list\<rparr>) = Inl ValueError"
    by (simp add: replace_min_def raises_def size_heap_def)
  from empty_heap_errors [of "\<lparr>items = []::int list\<rparr>" 7] g d r show ?thesis by blast
qed

text \<open>
  C8. Inserting \<open>x\<close> into the empty heap gives the heap holding exactly \<open>x\<close>; on it
  \<open>get_min()\<close> returns \<open>x\<close> and leaves the heap as it is, and \<open>delete_min()\<close> returns
  \<open>x\<close> and leaves the heap empty, with \<open>size()\<close> 0.
\<close>

theorem single_element_scenario:
  "insert_heap x empty_heap = (Inr (), \<lparr>items = [x]\<rparr>) \<and>
   get_min \<lparr>items = [x]\<rparr> = (Inr x, \<lparr>items = [x]\<rparr>) \<and>
   delete_min \<lparr>items = [x]\<rparr> = (Inr x, \<lparr>items = []\<rparr>) \<and>
   size_heap (snd (delete_min \<lparr>items = [x]\<rparr>)) = 0 \<and>
   is_empty_heap (snd (delete_min \<lparr>items = [x]\<rparr>))"
  by (simp add: insert_heap_eq empty_heap_items get_min_eq delete_min_eq size_heap_def
      is_empty_heap_def)

text \<open>
  C9, as amended. For every heap and every index outside \<open>0 .. size-1\<close>,
  \<open>_bubble_down\<close> raises \<open>IndexError\<close> (the specification's IndexOutOfRange) and so does
  \<open>_bubble_up\<close> unless the index is 0; \<open>_bubble_up(0)\<close> returns normally on every heap,
  the empty one included; \<open>_parent_index\<close> raises \<open>IndexError\<close> for every index
  \<open>\<le> 0\<close>. A raising call leaves the heap as it was.
\<close>

theorem index_out_of_range_amended:
  "(\<not> (0 \<le> index \<and> index \<le> size_heap h - 1) \<longrightarrow>
      bubble_down index h = (Inl IndexError, h)) \<and>
   (\<not> (0 \<le> index \<and> index \<le> size_heap h - 1) \<and> index \<noteq> 0 \<longrightarrow>
      bubble_up index h = (Inl IndexError, h)) \<and>
   bubble_up 0 h = (Inr (), h) \<and>
   (index \<le> 0 \<longrightarrow> parent_index index = Inl IndexError)"
  by (simp add: bubble_down_def bubble_up_def raises_def returns_def last_index_def
      size_heap_def parent_index_def)

text \<open>Index 2 on the heap \<open>[4, 6]\<close> is out of range, and index \<open>-1\<close> has no parent.\<close>

theorem index_out_of_range_witness:
  "\<not> (0 \<le> (2::int) \<and> (2::int) \<le> size_heap \<lparr>items = [4, 6::int]\<rparr> - 1) \<and>
   bubble_down 2 \<lparr>items = [4, 6::int]\<rparr> = (Inl IndexError, \<lparr>items = [4, 6]\<rparr>) \<and>
   bubble_up 2 \<lparr>items = [4, 6::int]\<rparr> = (Inl IndexError, \<lparr>items = [4, 6]\<rparr>) \<and>
   bubble_up 0 \<lparr>items = [4, 6::int]\<rparr> = (Inr (), \<lparr>items = [4, 6]\<rparr>) \<and>
   parent_index (- 1) = Inl IndexError"
proof -
  have out: "\<not> (0 \<le> (2::int) \<and> (2::int) \<le> size_heap \<lparr>items = [4, 6::int]\<rparr> - 1)"
    by (simp add: size_heap_def)
  from index_out_of_range_amended [of 2 "\<lparr>items = [4, 6::int]\<rparr>"]
    index_out_of_range_amended [of "- 1" "\<lparr>items = [4, 6::int]\<rparr>"] out
  show ?thesis by simp
qed

text \<open>C9 as stated fails: index 0 is outside \<open>0 .. size-1\<close> of the empty heap, and
  \<open>_bubble_up(0)\<close> returns normally there.\<close>

theorem bubble_up_zero_empty_counterexample:
  "\<not> (0 \<le> (0::int) \<and> (0::int) \<le> size_heap (empty_heap :: int BinaryMinHeap) - 1) \<and>
   bubble_up 0 (empty_heap :: int BinaryMinHeap) = (Inr (), empty_heap) \<and>
   fst (bubble_up 0 (empty_heap :: int BinaryMinHeap)) \<noteq> Inl IndexError"
  by (simp add: empty_heap_items size_heap_def bubble_up_def returns_def)

text \<open>
  C10. For every heap and every index in range, \<open>_bubble_up\<close> and \<open>_bubble_down\<close> return
  normally and leave \<open>items\<close> unchanged; and inserting the items \<open>xs\<close> one after the
  other into the empty heap leaves \<open>items\<close> equal to \<open>xs\<close>, in insertion order.
\<close>

theorem sift_routines_no_swaps:
  "(0 \<le> index \<and> index \<le> last_index h \<longrightarrow>
      bubble_up index h = (Inr (), h) \<and> bubble_down index h = (Inr (), h)) \<and>
   insert_all xs empty_heap = (Inr (), \<lparr>items = xs\<rparr>)"
  by (simp add: bubble_up_in_range bubble_down_in_range insert_all_eq empty_heap_items)

text \<open>The heap \<open>[1, 0]\<close>, out of order at index 1, stays as it is under both routines.\<close>

theorem sift_routines_no_swaps_witness:
  "0 \<le> (1::int) \<and> (1::int) \<le> last_index \<lparr>items = [1, 0::int]\<rparr> \<and>
   bubble_up 1 \<lparr>items = [1, 0::int]\<rparr> = (Inr (), \<lparr>items = [1, 0]\<rparr>) \<and>
   bubble_down 0 \<lparr>items = [1, 0::int]\<rparr> = (Inr (), \<lparr>items = [1, 0]\<rparr>) \<and>
   insert_all [1, 0::int] empty_heap = (Inr (), \<lparr>items = [1, 0]\<rparr>)"
proof -
  have a: "0 \<le> (1::int) \<and> (1::int) \<le> last_index \<lparr>items = [1, 0::int]\<rparr>"
    and b: "0 \<le> (0::int) \<and> (0::int) \<le> last_index \<lparr>items = [1, 0::int]\<rparr>"
    by (simp_all add: last_index_def)
  from sift_routines_no_swaps [of 1 "\<lparr>items = [1, 0::int]\<rparr>" "[1, 0]"]
    sift_routines_no_swaps [of 0 "\<lparr>items = [1, 0::int]\<rparr>" "[1, 0]"] a b
  show ?thesis by blast
qed

end
